theory Spec2Isabelle
  imports Complex_Main
begin

section \<open>MacQ state-vector engine: data model\<close>

text \<open>
  The C core (\<^verbatim>\<open>c_engine/src/macq.c\<close>, \<^verbatim>\<open>c_engine/include/macq.h\<close>) is embedded
  function by function. Conventions of the embedding:

  \<^item> a C \<^verbatim>\<open>double\<close> is a \<^typ>\<open>real\<close> and a \<^verbatim>\<open>cplx\<close> (\<^verbatim>\<open>double complex\<close>) is a
    \<^typ>\<open>complex\<close>: arithmetic is exact, rounding, overflow, infinities and NaN are not
    represented. The two divisions of \<^verbatim>\<open>qstate_measure\<close> whose divisor can be zero are
    therefore written out: the comparison with the quotient of the probabilities has a case
    for the zero divisor, and a collapse that divides by zero is an outcome of its own.
    Statements about computed values hold for this exact arithmetic; where the rounding or
    the overflow of doubles decides a claim, \<^verbatim>\<open>qstate_norm\<close> and \<^verbatim>\<open>qstate_measure\<close> are
    read once more on IEEE 754 doubles (\<open>qstate_norm_ieee\<close>, \<open>qstate_measure_ieee\<close>);
  \<^item> a pointer that may be \<^verbatim>\<open>NULL\<close> is an \<^typ>\<open>'a option\<close>, \<^term>\<open>None\<close> being \<^verbatim>\<open>NULL\<close>;
  \<^item> a function that mutates \<^verbatim>\<open>*qs\<close> returns the state after the call next to its C
    return value;
  \<^item> \<^verbatim>\<open>int\<close> arguments are \<^typ>\<open>int\<close>, \<^verbatim>\<open>size_t\<close> values are \<^typ>\<open>nat\<close>. Every state that
    \<^verbatim>\<open>qstate_create\<close> returns has at most 30 qubits, so no shift or index computed from a
    validated qubit index reaches \<open>2 ^ 64\<close>; the theorems about loops assume such a
    well-formed state (\<open>wf_qstate\<close> below);
  \<^item> a \<^verbatim>\<open>for (i = 0; i < n; i++)\<close> loop is a \<^term>\<open>fold\<close> over \<^term>\<open>[0..<n]\<close>; a loop
    with an early \<^verbatim>\<open>return\<close> is a recursive function with an optional result.
\<close>

type_synonym cplx = complex

text \<open>\<^verbatim>\<open>typedef struct { ... } QuantumState\<close>. The field \<^verbatim>\<open>_aligned_buffer\<close> is the
  address of the same buffer as \<^verbatim>\<open>state_vector\<close> and carries no further data. The
  field \<^verbatim>\<open>norm\<close> is named \<open>norm_cache\<close>, since \<open>norm\<close> is the norm of HOL's
  vector spaces.\<close>

record QuantumState =
  num_qubits :: int
  vector_size :: nat
  state_vector :: "cplx list"
  use_accelerate :: bool
  norm_cache :: real

datatype MacQError =
    MACQ_SUCCESS
  | MACQ_ERROR_INVALID_QUBITS
  | MACQ_ERROR_OUT_OF_MEMORY
  | MACQ_ERROR_INVALID_GATE
  | MACQ_ERROR_INVALID_INDEX
  | MACQ_ERROR_NULL_POINTER

definition MAX_QUBITS :: int where
  "MAX_QUBITS = 30"

text \<open>The states the engine hands out: what \<^verbatim>\<open>qstate_create\<close> establishes and no
  operation changes.\<close>

definition wf_qstate :: "QuantumState \<Rightarrow> bool" where
  "wf_qstate s \<longleftrightarrow>
     1 \<le> num_qubits s \<and> num_qubits s \<le> MAX_QUBITS \<and>
     vector_size s = 2 ^ nat (num_qubits s) \<and>
     length (state_vector s) = vector_size s"

subsection \<open>Helper functions\<close>

definition is_valid_qubit_index :: "QuantumState option \<Rightarrow> int \<Rightarrow> bool" where
  "is_valid_qubit_index qs qubit =
     (case qs of None \<Rightarrow> False
      | Some s \<Rightarrow> qubit \<ge> 0 \<and> qubit < num_qubits s)"

text \<open>\<^verbatim>\<open>memset(qs->state_vector, 0, qs->vector_size * sizeof(cplx))\<close>: the all-zero bytes
  of a \<^verbatim>\<open>double complex\<close> are \<open>0.0 + 0.0i\<close>.\<close>

definition memset_zero :: "nat \<Rightarrow> cplx list \<Rightarrow> cplx list" where
  "memset_zero n sv = fold (\<lambda>i v. v[i := 0]) [0..<n] sv"

text \<open>\<^verbatim>\<open>creal(amp) * creal(amp) + cimag(amp) * cimag(amp)\<close>\<close>

definition sq_mag :: "cplx \<Rightarrow> real" where
  "sq_mag amp = Re amp * Re amp + Im amp * Im amp"

subsection \<open>Core quantum state functions\<close>

text \<open>\<^verbatim>\<open>qstate_create\<close>; the allocation is assumed to succeed.\<close>

definition qstate_create :: "int \<Rightarrow> QuantumState option" where
  "qstate_create n =
     (if n < 1 \<or> n > MAX_QUBITS then None
      else
        let vsize = push_bit (nat n) (1::nat);
            sv = replicate vsize (0::cplx)
        in Some \<lparr> num_qubits = n, vector_size = vsize,
                  state_vector = sv[0 := 1],
                  use_accelerate = True, norm_cache = 1 \<rparr>)"

definition qstate_clone :: "QuantumState option \<Rightarrow> QuantumState option" where
  "qstate_clone qs =
     (case qs of None \<Rightarrow> None
      | Some s \<Rightarrow>
         (case qstate_create (num_qubits s) of None \<Rightarrow> None
          | Some new_qs \<Rightarrow>
             Some (new_qs \<lparr> state_vector :=
                              take (vector_size s) (state_vector s)
                              @ drop (vector_size s) (state_vector new_qs),
                            norm_cache := norm_cache s \<rparr>)))"

text \<open>The loop of \<^verbatim>\<open>qstate_init_basis\<close> that computes the basis index; \<^term>\<open>None\<close> is
  its early \<^verbatim>\<open>return MACQ_ERROR_INVALID_INDEX\<close>.\<close>

fun basis_index_loop :: "string \<Rightarrow> nat \<Rightarrow> nat \<Rightarrow> nat option" where
  "basis_index_loop [] i index = Some index"
| "basis_index_loop (c # cs) i index =
     (if c = CHR ''1'' then basis_index_loop cs (i + 1) (or index (push_bit i 1))
      else if c \<noteq> CHR ''0'' then None
      else basis_index_loop cs (i + 1) index)"

definition qstate_init_basis ::
  "QuantumState option \<Rightarrow> string option \<Rightarrow> MacQError \<times> QuantumState option" where
  "qstate_init_basis qs bitstring =
     (case qs of None \<Rightarrow> (MACQ_ERROR_NULL_POINTER, qs)
      | Some s \<Rightarrow>
         (case bitstring of None \<Rightarrow> (MACQ_ERROR_NULL_POINTER, qs)
          | Some b \<Rightarrow>
             let len = int (length b) in
             if len \<noteq> num_qubits s then (MACQ_ERROR_INVALID_INDEX, qs)
             else
               let cleared = s \<lparr> state_vector := memset_zero (vector_size s) (state_vector s) \<rparr>
               in (case basis_index_loop b 0 0 of
                     None \<Rightarrow> (MACQ_ERROR_INVALID_INDEX, Some cleared)
                   | Some index \<Rightarrow>
                       (MACQ_SUCCESS,
                        Some (cleared \<lparr> state_vector := (state_vector cleared)[index := 1],
                                        norm_cache := 1 \<rparr>)))))"

text \<open>\<^verbatim>\<open>qstate_norm\<close>: the scan of the buffer, then the square root; \<open>-1.0\<close> for
  \<^verbatim>\<open>NULL\<close>. The cached field \<^verbatim>\<open>norm\<close> (here \<open>norm_cache\<close>) is not read.\<close>

definition norm_squared_loop :: "nat \<Rightarrow> cplx list \<Rightarrow> real" where
  "norm_squared_loop n sv = fold (\<lambda>i acc. acc + sq_mag (sv ! i)) [0..<n] 0"

definition qstate_norm :: "QuantumState option \<Rightarrow> real" where
  "qstate_norm qs =
     (case qs of None \<Rightarrow> -1
      | Some s \<Rightarrow> sqrt (norm_squared_loop (vector_size s) (state_vector s)))"

definition qstate_normalize :: "QuantumState option \<Rightarrow> MacQError \<times> QuantumState option" where
  "qstate_normalize qs =
     (case qs of None \<Rightarrow> (MACQ_ERROR_NULL_POINTER, qs)
      | Some s \<Rightarrow>
         let nrm = qstate_norm qs in
         if nrm < 1 / 10 ^ 10 then (MACQ_ERROR_INVALID_GATE, qs)
         else
           (MACQ_SUCCESS,
            Some (s \<lparr> state_vector :=
                        fold (\<lambda>i v. v[i := v ! i / complex_of_real nrm])
                             [0..<vector_size s] (state_vector s),
                      norm_cache := 1 \<rparr>)))"

subsection \<open>Single-qubit gates\<close>

text \<open>
  Every single-qubit kernel has the same frame: the index check, then
  \<^verbatim>\<open>block_size = 1ULL << target\<close>, \<^verbatim>\<open>num_blocks = qs->vector_size >> (target + 1)\<close> and
  the two nested loops over \<^verbatim>\<open>block\<close> and \<^verbatim>\<open>i\<close> with
  \<^verbatim>\<open>base_idx = block * (block_size << 1)\<close>. The frame is \<open>block_loop\<close> and
  \<open>single_qubit_kernel\<close>; each gate supplies the body of its inner loop, which gets
  \<^verbatim>\<open>block_size\<close>, \<^verbatim>\<open>base_idx\<close> and \<^verbatim>\<open>i\<close>.
\<close>

definition block_loop ::
  "nat \<Rightarrow> nat \<Rightarrow> (nat \<Rightarrow> nat \<Rightarrow> cplx list \<Rightarrow> cplx list) \<Rightarrow> cplx list \<Rightarrow> cplx list" where
  "block_loop num_blocks block_size body sv =
     fold (\<lambda>block v.
             fold (\<lambda>i w. body (block * push_bit 1 block_size) i w) [0..<block_size] v)
          [0..<num_blocks] sv"

definition single_qubit_kernel ::
  "(nat \<Rightarrow> nat \<Rightarrow> nat \<Rightarrow> cplx list \<Rightarrow> cplx list) \<Rightarrow> QuantumState option \<Rightarrow> int
     \<Rightarrow> MacQError \<times> QuantumState option" where
  "single_qubit_kernel body qs target =
     (if \<not> is_valid_qubit_index qs target then (MACQ_ERROR_INVALID_INDEX, qs)
      else
        (case qs of None \<Rightarrow> (MACQ_ERROR_INVALID_INDEX, qs)
         | Some s \<Rightarrow>
            let block_size = push_bit (nat target) (1::nat);
                num_blocks = drop_bit (nat (target + 1)) (vector_size s)
            in (MACQ_SUCCESS,
                Some (s \<lparr> state_vector :=
                            block_loop num_blocks block_size (body block_size)
                              (state_vector s) \<rparr>))))"

definition x_body :: "nat \<Rightarrow> nat \<Rightarrow> nat \<Rightarrow> cplx list \<Rightarrow> cplx list" where
  "x_body block_size base_idx i v =
     (let idx0 = base_idx + i;
          idx1 = idx0 + block_size;
          temp = v ! idx0;
          v1 = v[idx0 := v ! idx1]
      in v1[idx1 := temp])"

definition y_body :: "nat \<Rightarrow> nat \<Rightarrow> nat \<Rightarrow> cplx list \<Rightarrow> cplx list" where
  "y_body block_size base_idx i v =
     (let idx0 = base_idx + i;
          idx1 = idx0 + block_size;
          a0 = v ! idx0;
          a1 = v ! idx1;
          v1 = v[idx0 := - \<i> * a1]
      in v1[idx1 := \<i> * a0])"

definition z_body :: "nat \<Rightarrow> nat \<Rightarrow> nat \<Rightarrow> cplx list \<Rightarrow> cplx list" where
  "z_body block_size base_idx i v =
     (let idx1 = base_idx + i + block_size
      in v[idx1 := - (v ! idx1)])"

definition h_body :: "nat \<Rightarrow> nat \<Rightarrow> nat \<Rightarrow> cplx list \<Rightarrow> cplx list" where
  "h_body block_size base_idx i v =
     (let inv_sqrt2 = 1 / sqrt 2;
          idx0 = base_idx + i;
          idx1 = idx0 + block_size;
          a0 = v ! idx0;
          a1 = v ! idx1;
          v1 = v[idx0 := complex_of_real inv_sqrt2 * (a0 + a1)]
      in v1[idx1 := complex_of_real inv_sqrt2 * (a0 - a1)])"

definition s_body :: "nat \<Rightarrow> nat \<Rightarrow> nat \<Rightarrow> cplx list \<Rightarrow> cplx list" where
  "s_body block_size base_idx i v =
     (let idx1 = base_idx + i + block_size
      in v[idx1 := v ! idx1 * \<i>])"

definition t_body :: "nat \<Rightarrow> nat \<Rightarrow> nat \<Rightarrow> cplx list \<Rightarrow> cplx list" where
  "t_body block_size base_idx i v =
     (let t_phase = exp (\<i> * complex_of_real pi / 4);
          idx1 = base_idx + i + block_size
      in v[idx1 := v ! idx1 * t_phase])"

definition qstate_apply_x :: "QuantumState option \<Rightarrow> int \<Rightarrow> MacQError \<times> QuantumState option" where
  "qstate_apply_x = single_qubit_kernel x_body"

definition qstate_apply_y :: "QuantumState option \<Rightarrow> int \<Rightarrow> MacQError \<times> QuantumState option" where
  "qstate_apply_y = single_qubit_kernel y_body"

definition qstate_apply_z :: "QuantumState option \<Rightarrow> int \<Rightarrow> MacQError \<times> QuantumState option" where
  "qstate_apply_z = single_qubit_kernel z_body"

definition qstate_apply_h :: "QuantumState option \<Rightarrow> int \<Rightarrow> MacQError \<times> QuantumState option" where
  "qstate_apply_h = single_qubit_kernel h_body"

definition qstate_apply_s :: "QuantumState option \<Rightarrow> int \<Rightarrow> MacQError \<times> QuantumState option" where
  "qstate_apply_s = single_qubit_kernel s_body"

definition qstate_apply_t :: "QuantumState option \<Rightarrow> int \<Rightarrow> MacQError \<times> QuantumState option" where
  "qstate_apply_t = single_qubit_kernel t_body"

subsection \<open>Rotation gates\<close>

definition rx_body :: "real \<Rightarrow> nat \<Rightarrow> nat \<Rightarrow> nat \<Rightarrow> cplx list \<Rightarrow> cplx list" where
  "rx_body theta block_size base_idx i v =
     (let cos_half = cos (theta / 2);
          sin_half = sin (theta / 2);
          neg_i = - \<i>;
          idx0 = base_idx + i;
          idx1 = idx0 + block_size;
          a0 = v ! idx0;
          a1 = v ! idx1;
          v1 = v[idx0 := complex_of_real cos_half * a0
                         + neg_i * complex_of_real sin_half * a1]
      in v1[idx1 := neg_i * complex_of_real sin_half * a0
                    + complex_of_real cos_half * a1])"

definition ry_body :: "real \<Rightarrow> nat \<Rightarrow> nat \<Rightarrow> nat \<Rightarrow> cplx list \<Rightarrow> cplx list" where
  "ry_body theta block_size base_idx i v =
     (let cos_half = cos (theta / 2);
          sin_half = sin (theta / 2);
          idx0 = base_idx + i;
          idx1 = idx0 + block_size;
          a0 = v ! idx0;
          a1 = v ! idx1;
          v1 = v[idx0 := complex_of_real cos_half * a0 - complex_of_real sin_half * a1]
      in v1[idx1 := complex_of_real sin_half * a0 + complex_of_real cos_half * a1])"

definition rz_body :: "real \<Rightarrow> nat \<Rightarrow> nat \<Rightarrow> nat \<Rightarrow> cplx list \<Rightarrow> cplx list" where
  "rz_body theta block_size base_idx i v =
     (let phase_neg = exp (- \<i> * complex_of_real theta / 2);
          phase_pos = exp (\<i> * complex_of_real theta / 2);
          idx0 = base_idx + i;
          idx1 = idx0 + block_size;
          v1 = v[idx0 := v ! idx0 * phase_neg]
      in v1[idx1 := v1 ! idx1 * phase_pos])"

definition qstate_apply_rx ::
  "QuantumState option \<Rightarrow> int \<Rightarrow> real \<Rightarrow> MacQError \<times> QuantumState option" where
  "qstate_apply_rx qs target theta = single_qubit_kernel (rx_body theta) qs target"

definition qstate_apply_ry ::
  "QuantumState option \<Rightarrow> int \<Rightarrow> real \<Rightarrow> MacQError \<times> QuantumState option" where
  "qstate_apply_ry qs target theta = single_qubit_kernel (ry_body theta) qs target"

definition qstate_apply_rz ::
  "QuantumState option \<Rightarrow> int \<Rightarrow> real \<Rightarrow> MacQError \<times> QuantumState option" where
  "qstate_apply_rz qs target theta = single_qubit_kernel (rz_body theta) qs target"

subsection \<open>Two- and three-qubit gates\<close>

text \<open>The loops over the whole index space, \<^verbatim>\<open>for (size_t i = 0; i < qs->vector_size; i++)\<close>.
  A C condition \<^verbatim>\<open>i & mask\<close> is \<open>and i mask \<noteq> 0\<close>.\<close>

definition swap_amplitudes :: "nat \<Rightarrow> nat \<Rightarrow> cplx list \<Rightarrow> cplx list" where
  "swap_amplitudes i pair_idx v =
     (let temp = v ! i;
          v1 = v[i := v ! pair_idx]
      in v1[pair_idx := temp])"

definition cnot_body :: "nat \<Rightarrow> nat \<Rightarrow> nat \<Rightarrow> cplx list \<Rightarrow> cplx list" where
  "cnot_body mask_control mask_target i v =
     (if and i mask_control \<noteq> 0 then
        let pair_idx = xor i mask_target
        in if i < pair_idx then swap_amplitudes i pair_idx v else v
      else v)"

definition qstate_apply_cnot ::
  "QuantumState option \<Rightarrow> int \<Rightarrow> int \<Rightarrow> MacQError \<times> QuantumState option" where
  "qstate_apply_cnot qs control target =
     (if \<not> is_valid_qubit_index qs control \<or> \<not> is_valid_qubit_index qs target
      then (MACQ_ERROR_INVALID_INDEX, qs)
      else if control = target then (MACQ_ERROR_INVALID_GATE, qs)
      else
        (case qs of None \<Rightarrow> (MACQ_ERROR_INVALID_INDEX, qs)
         | Some s \<Rightarrow>
            let mask_control = push_bit (nat control) (1::nat);
                mask_target = push_bit (nat target) (1::nat)
            in (MACQ_SUCCESS,
                Some (s \<lparr> state_vector :=
                            fold (cnot_body mask_control mask_target)
                                 [0..<vector_size s] (state_vector s) \<rparr>))))"

definition cz_body :: "nat \<Rightarrow> nat \<Rightarrow> nat \<Rightarrow> cplx list \<Rightarrow> cplx list" where
  "cz_body mask_control mask_target i v =
     (if and i mask_control \<noteq> 0 \<and> and i mask_target \<noteq> 0
      then v[i := - (v ! i)] else v)"

definition qstate_apply_cz ::
  "QuantumState option \<Rightarrow> int \<Rightarrow> int \<Rightarrow> MacQError \<times> QuantumState option" where
  "qstate_apply_cz qs control target =
     (if \<not> is_valid_qubit_index qs control \<or> \<not> is_valid_qubit_index qs target
      then (MACQ_ERROR_INVALID_INDEX, qs)
      else
        (case qs of None \<Rightarrow> (MACQ_ERROR_INVALID_INDEX, qs)
         | Some s \<Rightarrow>
            let mask_control = push_bit (nat control) (1::nat);
                mask_target = push_bit (nat target) (1::nat)
            in (MACQ_SUCCESS,
                Some (s \<lparr> state_vector :=
                            fold (cz_body mask_control mask_target)
                                 [0..<vector_size s] (state_vector s) \<rparr>))))"

definition swap_body :: "nat \<Rightarrow> nat \<Rightarrow> nat \<Rightarrow> cplx list \<Rightarrow> cplx list" where
  "swap_body mask1 mask2 i v =
     (let bit1 = (and i mask1 \<noteq> 0);
          bit2 = (and i mask2 \<noteq> 0)
      in if bit1 \<noteq> bit2 then
           let pair_idx = xor (xor i mask1) mask2
           in if i < pair_idx then swap_amplitudes i pair_idx v else v
         else v)"

definition qstate_apply_swap ::
  "QuantumState option \<Rightarrow> int \<Rightarrow> int \<Rightarrow> MacQError \<times> QuantumState option" where
  "qstate_apply_swap qs qubit1 qubit2 =
     (if \<not> is_valid_qubit_index qs qubit1 \<or> \<not> is_valid_qubit_index qs qubit2
      then (MACQ_ERROR_INVALID_INDEX, qs)
      else if qubit1 = qubit2 then (MACQ_SUCCESS, qs)
      else
        (case qs of None \<Rightarrow> (MACQ_ERROR_INVALID_INDEX, qs)
         | Some s \<Rightarrow>
            let mask1 = push_bit (nat qubit1) (1::nat);
                mask2 = push_bit (nat qubit2) (1::nat)
            in (MACQ_SUCCESS,
                Some (s \<lparr> state_vector :=
                            fold (swap_body mask1 mask2)
                                 [0..<vector_size s] (state_vector s) \<rparr>))))"

definition toffoli_body :: "nat \<Rightarrow> nat \<Rightarrow> nat \<Rightarrow> nat \<Rightarrow> cplx list \<Rightarrow> cplx list" where
  "toffoli_body mask_c1 mask_c2 mask_target i v =
     (if and i mask_c1 \<noteq> 0 \<and> and i mask_c2 \<noteq> 0 then
        let pair_idx = xor i mask_target
        in if i < pair_idx then swap_amplitudes i pair_idx v else v
      else v)"

definition qstate_apply_toffoli ::
  "QuantumState option \<Rightarrow> int \<Rightarrow> int \<Rightarrow> int \<Rightarrow> MacQError \<times> QuantumState option" where
  "qstate_apply_toffoli qs control1 control2 target =
     (if \<not> is_valid_qubit_index qs control1 \<or> \<not> is_valid_qubit_index qs control2
         \<or> \<not> is_valid_qubit_index qs target
      then (MACQ_ERROR_INVALID_INDEX, qs)
      else
        (case qs of None \<Rightarrow> (MACQ_ERROR_INVALID_INDEX, qs)
         | Some s \<Rightarrow>
            let mask_c1 = push_bit (nat control1) (1::nat);
                mask_c2 = push_bit (nat control2) (1::nat);
                mask_target = push_bit (nat target) (1::nat)
            in (MACQ_SUCCESS,
                Some (s \<lparr> state_vector :=
                            fold (toffoli_body mask_c1 mask_c2 mask_target)
                                 [0..<vector_size s] (state_vector s) \<rparr>))))"

subsection \<open>Measurement\<close>

text \<open>The variables \<^verbatim>\<open>mask\<close> and \<^verbatim>\<open>bit\<close> of the source are \<open>qmask\<close> and \<open>qbit\<close>.
  The first loop of \<^verbatim>\<open>qstate_measure\<close>: the pair \<open>(prob_0, prob_1)\<close>.\<close>

definition measure_probs :: "nat \<Rightarrow> nat \<Rightarrow> cplx list \<Rightarrow> real \<times> real" where
  "measure_probs qmask n sv =
     fold (\<lambda>i (prob_0, prob_1).
             let prob = sq_mag (sv ! i)
             in if and i qmask \<noteq> 0 then (prob_0, prob_1 + prob)
                else (prob_0 + prob, prob_1))
          [0..<n] (0, 0)"

text \<open>\<^verbatim>\<open>result = (rand_val < prob_0 / (prob_0 + prob_1)) ? 0 : 1\<close>. When both
  probabilities are zero the quotient is the IEEE \<open>0.0 / 0.0\<close>, a NaN, every comparison
  with which is false: the result is 1.\<close>

definition measure_result :: "real \<Rightarrow> real \<Rightarrow> real \<Rightarrow> int" where
  "measure_result prob_0 prob_1 rand_val =
     (if prob_0 + prob_1 = 0 then 1
      else if rand_val < prob_0 / (prob_0 + prob_1) then 0 else 1)"

text \<open>\<^verbatim>\<open>qs->state_vector[i] /= norm_factor\<close>. A division by \<open>0.0\<close> yields infinities or
  NaN, which are no complex numbers: \<^term>\<open>None\<close>.\<close>

definition cplx_div_double :: "cplx \<Rightarrow> real \<Rightarrow> cplx option" where
  "cplx_div_double a d = (if d = 0 then None else Some (a / complex_of_real d))"

text \<open>The collapse loop; \<^term>\<open>None\<close> once an amplitude has been divided by zero.\<close>

definition collapse_body :: "int \<Rightarrow> nat \<Rightarrow> real \<Rightarrow> nat \<Rightarrow> cplx list option \<Rightarrow> cplx list option" where
  "collapse_body result qmask norm_factor i vo =
     (case vo of None \<Rightarrow> None
      | Some v \<Rightarrow>
         let qbit = (and i qmask \<noteq> 0)
         in if (result = 1 \<and> qbit) \<or> (result = 0 \<and> \<not> qbit)
            then (case cplx_div_double (v ! i) norm_factor of
                    None \<Rightarrow> None
                  | Some a \<Rightarrow> Some (v[i := a]))
            else Some (v[i := 0]))"

datatype measure_effect = State "QuantumState option" | Division_By_Zero

text \<open>\<^verbatim>\<open>qstate_measure\<close>. The call of \<^verbatim>\<open>rand()\<close> is the argument \<open>rand\<close>, an integer
  between 0 and \<^verbatim>\<open>RAND_MAX\<close>; \<^verbatim>\<open>RAND_MAX\<close>, a constant of the C library, is the argument
  \<open>rand_max\<close>. The result is the C return value and what has become of \<^verbatim>\<open>*qs\<close>.\<close>

definition qstate_measure ::
  "QuantumState option \<Rightarrow> int \<Rightarrow> int \<Rightarrow> int \<Rightarrow> int \<times> measure_effect" where
  "qstate_measure qs qubit rand rand_max =
     (if \<not> is_valid_qubit_index qs qubit then (-1, State qs)
      else
        (case qs of None \<Rightarrow> (-1, State qs)
         | Some s \<Rightarrow>
            let qmask = push_bit (nat qubit) (1::nat);
                (prob_0, prob_1) = measure_probs qmask (vector_size s) (state_vector s);
                rand_val = real_of_int rand / real_of_int rand_max;
                result = measure_result prob_0 prob_1 rand_val;
                norm_factor = (if result = 0 then sqrt prob_0 else sqrt prob_1)
            in (case fold (collapse_body result qmask norm_factor) [0..<vector_size s]
                          (Some (state_vector s)) of
                  None \<Rightarrow> (result, Division_By_Zero)
                | Some v \<Rightarrow> (result, State (Some (s \<lparr> state_vector := v \<rparr>))))))"

definition qstate_basis_probability :: "QuantumState option \<Rightarrow> nat \<Rightarrow> real" where
  "qstate_basis_probability qs basis_index =
     (case qs of None \<Rightarrow> -1
      | Some s \<Rightarrow> if basis_index \<ge> vector_size s then -1
                  else sq_mag (state_vector s ! basis_index))"

subsection \<open>Utility functions\<close>

definition qstate_get_amplitude :: "QuantumState option \<Rightarrow> nat \<Rightarrow> cplx" where
  "qstate_get_amplitude qs basis_index =
     (case qs of None \<Rightarrow> 0
      | Some s \<Rightarrow> if basis_index \<ge> vector_size s then 0
                  else state_vector s ! basis_index)"

definition qstate_set_amplitude ::
  "QuantumState option \<Rightarrow> nat \<Rightarrow> cplx \<Rightarrow> MacQError \<times> QuantumState option" where
  "qstate_set_amplitude qs basis_index amplitude =
     (case qs of None \<Rightarrow> (MACQ_ERROR_INVALID_INDEX, qs)
      | Some s \<Rightarrow>
         if basis_index \<ge> vector_size s then (MACQ_ERROR_INVALID_INDEX, qs)
         else (MACQ_SUCCESS,
               Some (s \<lparr> state_vector := (state_vector s)[basis_index := amplitude] \<rparr>)))"

subsection \<open>The same arithmetic on IEEE 754 doubles\<close>


definition round_ties_even :: "real \<Rightarrow> int" where
  "round_ties_even x =
     (let f = \<lfloor>x\<rfloor>; d = x - real_of_int f
      in if d < 1 / 2 then f else if 1 / 2 < d then f + 1
         else if even f then f else f + 1)"














subsection \<open>Notions used in the statements\<close>


text \<open>The 3-qubit basis state that \<^verbatim>\<open>qstate_init_basis\<close> makes of a bit string (qubit 0
  first), and \<^verbatim>\<open>qstate_apply_toffoli(qs, 0, 1, 2)\<close> run on it.\<close>

definition basis3 :: "string \<Rightarrow> QuantumState option" where
  "basis3 b = snd (qstate_init_basis (qstate_create 3) (Some b))"

definition toffoli_on_basis3 :: "string \<Rightarrow> MacQError \<times> QuantumState option" where
  "toffoli_on_basis3 b = qstate_apply_toffoli (basis3 b) 0 1 2"

text \<open>A state of \<open>n\<close> qubits with the buffer \<open>v\<close>, as \<^verbatim>\<open>qstate_create\<close> lays it out.\<close>

definition qstate_of :: "int \<Rightarrow> cplx list \<Rightarrow> QuantumState" where
  "qstate_of n v = \<lparr> num_qubits = n, vector_size = push_bit (nat n) 1, state_vector = v,
                     use_accelerate = True, norm_cache = 1 \<rparr>"






section \<open>Evaluation on small states\<close>

lemma upt_2: "[0..<2] = [0, 1]"
  by (simp add: upt_rec)

lemma upt_4: "[0..<4] = [0, 1, 2, 3]"
  by (simp add: upt_rec)

lemma upt_8: "[0..<8] = [0, 1, 2, 3, 4, 5, 6, 7]"
  by (simp add: upt_rec)

lemma replicate_2: "replicate 2 x = [x, x]"
  by (simp add: numeral_eq_Suc)

lemma replicate_4: "replicate 4 x = [x, x, x, x]"
  by (simp add: numeral_eq_Suc)

lemma replicate_8: "replicate 8 x = [x, x, x, x, x, x, x, x]"
  by (simp add: numeral_eq_Suc)

lemma list_update_numeral: "(x # xs)[numeral k := y] = x # xs[pred_numeral k := y]"
  by (simp add: numeral_eq_Suc)

lemmas eval_simps = upt_2 upt_4 upt_8 replicate_2 replicate_4 replicate_8 list_update_numeral
  Let_def MAX_QUBITS_def is_valid_qubit_index_def qstate_of_def

lemma create_1: "qstate_create 1 = Some (qstate_of 1 [1, 0])"
  by (simp add: qstate_create_def eval_simps)

lemma create_2: "qstate_create 2 = Some (qstate_of 2 [1, 0, 0, 0])"
  by (simp add: qstate_create_def eval_simps)

lemma create_3: "qstate_create 3 = Some (qstate_of 3 [1, 0, 0, 0, 0, 0, 0, 0])"
  by (simp add: qstate_create_def eval_simps)

lemma wf_qstate_of_1: "wf_qstate (qstate_of 1 [a, b])"
  by (simp add: wf_qstate_def qstate_of_def MAX_QUBITS_def)


section \<open>Well-formed states\<close>

text \<open>Every state that \<^verbatim>\<open>qstate_create\<close> returns is well-formed, and writing an amplitude
  keeps it so.\<close>

lemma create_wf: "qstate_create n = Some s \<Longrightarrow> wf_qstate s"
  by (auto simp: qstate_create_def wf_qstate_def Let_def split: if_splits)

lemma set_amplitude_wf:
  "wf_qstate s \<Longrightarrow> qstate_set_amplitude (Some s) i a = (e, Some s') \<Longrightarrow> wf_qstate s'"
  by (auto simp: qstate_set_amplitude_def wf_qstate_def split: if_splits)

section \<open>Loops that rewrite every element\<close>

lemma fold_update_map:
  "n \<le> length v \<Longrightarrow>
   fold (\<lambda>i w. w[i := f (w ! i)]) [0..<n] v = map f (take n v) @ drop n v"
proof (induction n)
  case 0
  then show ?case by simp
next
  case (Suc n)
  then have n: "n < length v" by simp
  have "fold (\<lambda>i w. w[i := f (w ! i)]) [0..<Suc n] v
      = (map f (take n v) @ drop n v)[n := f ((map f (take n v) @ drop n v) ! n)]"
    using Suc by simp
  also have "\<dots> = map f (take n v) @ (drop n v)[0 := f (v ! n)]"
    using n by (simp add: list_update_append nth_append)
  also have "\<dots> = map f (take n v) @ f (v ! n) # drop (Suc n) v"
    using n by (simp add: Cons_nth_drop_Suc [symmetric])
  also have "\<dots> = map f (take (Suc n) v) @ drop (Suc n) v"
    using n by (simp add: take_Suc_conv_app_nth)
  finally show ?case .
qed

section \<open>Amplitude accessor\<close>

text \<open>
  C7, as stated (fails): for a null handle or an out-of-range basis index
  \<^verbatim>\<open>qstate_get_amplitude\<close> returns the sentinel \<open>-1.0\<close>. The code returns \<open>0.0\<close> in both
  cases: for \<^verbatim>\<open>NULL\<close> and for index 2 of a one-qubit state the result is not \<open>-1\<close>.
\<close>

theorem get_amplitude_sentinel_counterexample:
  "qstate_get_amplitude None 0 \<noteq> - 1 \<and> qstate_get_amplitude (qstate_create 1) 2 \<noteq> - 1"
  by (simp add: qstate_get_amplitude_def create_1 qstate_of_def)

text \<open>
  C7, amended: for a null state handle or an out-of-range basis index (an index that is
  at least \<^verbatim>\<open>vector_size\<close>) \<^verbatim>\<open>qstate_get_amplitude\<close> returns the complex number \<open>0.0\<close>,
  the value of an ordinary zero amplitude, and no sentinel.
\<close>

theorem get_amplitude_no_state:
  "qstate_get_amplitude None i = 0 \<and>
   (vector_size s \<le> i \<longrightarrow> qstate_get_amplitude (Some s) i = 0)"
  by (simp add: qstate_get_amplitude_def)

theorem get_amplitude_no_state_witness:
  "vector_size (qstate_of 1 [1, 0]) \<le> 2 \<and>
   qstate_get_amplitude None 2 = 0 \<and>
   qstate_get_amplitude (Some (qstate_of 1 [1, 0])) 2 = 0"
  using get_amplitude_no_state [of 2 "qstate_of 1 [1, 0]"]
  by (simp add: qstate_of_def)

section \<open>Basis-state initialisation\<close>

lemma memset_zero_replicate:
  "n \<le> length v \<Longrightarrow> memset_zero n v = replicate n 0 @ drop n v"
  unfolding memset_zero_def
  using fold_update_map [of n v "\<lambda>_. 0"] by (simp add: map_replicate_const)

lemma basis_index_loop_invalid:
  "c \<in> set b \<Longrightarrow> c \<noteq> CHR ''0'' \<Longrightarrow> c \<noteq> CHR ''1'' \<Longrightarrow> basis_index_loop b i index = None"
  by (induction b arbitrary: i index) auto

text \<open>On every well-formed state, a bit string of the right length with a character
  other than \<open>0\<close> and \<open>1\<close> gives the invalid-index error and leaves the zero vector.\<close>

lemma init_basis_invalid_char:
  assumes "wf_qstate s" "int (length b) = num_qubits s"
    and "c \<in> set b" "c \<noteq> CHR ''0''" "c \<noteq> CHR ''1''"
  shows "qstate_init_basis (Some s) (Some b)
     = (MACQ_ERROR_INVALID_INDEX, Some (s\<lparr>state_vector := replicate (vector_size s) 0\<rparr>))"
proof -
  have "memset_zero (vector_size s) (state_vector s) = replicate (vector_size s) 0"
    using assms(1) memset_zero_replicate [of "vector_size s" "state_vector s"]
    by (simp add: wf_qstate_def)
  then show ?thesis
    using assms(2) basis_index_loop_invalid [OF assms(3-5)]
    by (simp add: qstate_init_basis_def Let_def)
qed

text \<open>
  C1 (the code departs from the claim): a bit string of the right length with a character
  other than \<open>0\<close> and \<open>1\<close> makes \<^verbatim>\<open>qstate_init_basis\<close> return the invalid-index error,
  but only after the \<^verbatim>\<open>memset\<close> has cleared the buffer. On the one-qubit state
  \<open>|0\<rangle>\<close> and the string \<open>2\<close>, the amplitude at index 0 is 1 before the call and 0 after
  it: the failed call leaves the zero vector behind.
\<close>

theorem init_basis_invalid_char_clears_buffer:
  "qstate_create 1 = Some (qstate_of 1 [1, 0]) \<and>
   qstate_init_basis (Some (qstate_of 1 [1, 0])) (Some ''2'')
     = (MACQ_ERROR_INVALID_INDEX, Some (qstate_of 1 [0, 0])) \<and>
   qstate_get_amplitude (Some (qstate_of 1 [1, 0])) 0 = 1 \<and>
   qstate_get_amplitude (Some (qstate_of 1 [0, 0])) 0 = 0"
  by (simp add: create_1 qstate_init_basis_def memset_zero_def qstate_get_amplitude_def
      eval_simps)

section \<open>Bell state\<close>

lemma apply_h_qubit0_of_2:
  "qstate_apply_h (Some (qstate_of 2 [a0, a1, a2, a3])) 0
     = (MACQ_SUCCESS,
        Some (qstate_of 2 [complex_of_real (1 / sqrt 2) * (a0 + a1),
                           complex_of_real (1 / sqrt 2) * (a0 - a1),
                           complex_of_real (1 / sqrt 2) * (a2 + a3),
                           complex_of_real (1 / sqrt 2) * (a2 - a3)]))"
  by (simp add: qstate_apply_h_def single_qubit_kernel_def block_loop_def h_body_def
      drop_bit_eq_div eval_simps)

lemma apply_cnot_0_1_of_2:
  "qstate_apply_cnot (Some (qstate_of 2 [a0, a1, a2, a3])) 0 1
     = (MACQ_SUCCESS, Some (qstate_of 2 [a0, a3, a2, a1]))"
  by (simp add: qstate_apply_cnot_def cnot_body_def swap_amplitudes_def eval_simps)

text \<open>
  C3: from the 2-qubit state \<open>|00\<rangle>\<close> that \<^verbatim>\<open>qstate_create(2)\<close> returns,
  \<^verbatim>\<open>qstate_apply_h\<close> on qubit 0 and then \<^verbatim>\<open>qstate_apply_cnot\<close> with control 0 and target
  1 both succeed, and the amplitudes are \<open>1/\<surd>2\<close> at the basis indices 0 and 3 and 0 at
  the indices 1 and 2.
\<close>

theorem bell_state_construction:
  "(let (e1, q1) = qstate_apply_h (qstate_create 2) 0;
        (e2, q2) = qstate_apply_cnot q1 0 1
    in e1 = MACQ_SUCCESS \<and> e2 = MACQ_SUCCESS \<and>
       qstate_get_amplitude q2 0 = complex_of_real (1 / sqrt 2) \<and>
       qstate_get_amplitude q2 1 = 0 \<and>
       qstate_get_amplitude q2 2 = 0 \<and>
       qstate_get_amplitude q2 3 = complex_of_real (1 / sqrt 2))"
proof -
  have h: "qstate_apply_h (qstate_create 2) 0
      = (MACQ_SUCCESS, Some (qstate_of 2 [complex_of_real (1 / sqrt 2),
                                          complex_of_real (1 / sqrt 2), 0, 0]))"
    by (simp add: create_2 apply_h_qubit0_of_2)
  have c: "qstate_apply_cnot (Some (qstate_of 2 [complex_of_real (1 / sqrt 2),
                                                 complex_of_real (1 / sqrt 2), 0, 0])) 0 1
      = (MACQ_SUCCESS, Some (qstate_of 2 [complex_of_real (1 / sqrt 2), 0, 0,
                                          complex_of_real (1 / sqrt 2)]))"
    by (rule apply_cnot_0_1_of_2)
  show ?thesis
    unfolding h Let_def prod.case c
    by (simp add: qstate_get_amplitude_def qstate_of_def)
qed

text \<open>Both index checks of the two kernels pass on this input, and the composed call
  returns success with the Bell amplitudes.\<close>

theorem bell_state_construction_witness:
  "is_valid_qubit_index (qstate_create 2) 0 \<and>
   is_valid_qubit_index (snd (qstate_apply_h (qstate_create 2) 0)) 0 \<and>
   is_valid_qubit_index (snd (qstate_apply_h (qstate_create 2) 0)) 1 \<and>
   fst (qstate_apply_cnot (snd (qstate_apply_h (qstate_create 2) 0)) 0 1) = MACQ_SUCCESS \<and>
   qstate_get_amplitude (snd (qstate_apply_cnot (snd (qstate_apply_h (qstate_create 2) 0)) 0 1)) 3
     = complex_of_real (1 / sqrt 2)"
proof -
  have v: "is_valid_qubit_index (qstate_create 2) 0 \<and>
      is_valid_qubit_index (snd (qstate_apply_h (qstate_create 2) 0)) 0 \<and>
      is_valid_qubit_index (snd (qstate_apply_h (qstate_create 2) 0)) 1"
    by (simp add: create_2 apply_h_qubit0_of_2) (simp add: eval_simps)
  show ?thesis
    using bell_state_construction v by (simp add: Let_def split_beta)
qed

section \<open>Toffoli truth table\<close>

lemma basis3_values:
  "basis3 ''000'' = Some (qstate_of 3 [1, 0, 0, 0, 0, 0, 0, 0])"
  "basis3 ''100'' = Some (qstate_of 3 [0, 1, 0, 0, 0, 0, 0, 0])"
  "basis3 ''010'' = Some (qstate_of 3 [0, 0, 1, 0, 0, 0, 0, 0])"
  "basis3 ''110'' = Some (qstate_of 3 [0, 0, 0, 1, 0, 0, 0, 0])"
  "basis3 ''001'' = Some (qstate_of 3 [0, 0, 0, 0, 1, 0, 0, 0])"
  "basis3 ''101'' = Some (qstate_of 3 [0, 0, 0, 0, 0, 1, 0, 0])"
  "basis3 ''011'' = Some (qstate_of 3 [0, 0, 0, 0, 0, 0, 1, 0])"
  "basis3 ''111'' = Some (qstate_of 3 [0, 0, 0, 0, 0, 0, 0, 1])"
  by (simp_all add: basis3_def create_3 qstate_init_basis_def memset_zero_def eval_simps)

lemma apply_toffoli_0_1_2_of_3:
  "qstate_apply_toffoli (Some (qstate_of 3 [a0, a1, a2, a3, a4, a5, a6, a7])) 0 1 2
     = (MACQ_SUCCESS, Some (qstate_of 3 [a0, a1, a2, a7, a4, a5, a6, a3]))"
  by (simp add: qstate_apply_toffoli_def toffoli_body_def swap_amplitudes_def eval_simps)

text \<open>
  C5: on each of the 8 basis states of 3 qubits, written as bit strings with qubit 0
  first, \<^verbatim>\<open>qstate_apply_toffoli\<close> with controls 0 and 1 and target 2 succeeds; it turns
  \<open>110\<close> into \<open>111\<close> and \<open>111\<close> into \<open>110\<close> (qubit 2 flipped, qubits 0 and 1 both 1)
  and returns each of the other six basis states unchanged. The eight basis states are
  the eight unit vectors, the string \<open>b0 b1 b2\<close> at index \<open>b0 + 2 b1 + 4 b2\<close>.
\<close>

theorem toffoli_truth_table:
  "toffoli_on_basis3 ''000'' = (MACQ_SUCCESS, basis3 ''000'') \<and>
   toffoli_on_basis3 ''100'' = (MACQ_SUCCESS, basis3 ''100'') \<and>
   toffoli_on_basis3 ''010'' = (MACQ_SUCCESS, basis3 ''010'') \<and>
   toffoli_on_basis3 ''110'' = (MACQ_SUCCESS, basis3 ''111'') \<and>
   toffoli_on_basis3 ''001'' = (MACQ_SUCCESS, basis3 ''001'') \<and>
   toffoli_on_basis3 ''101'' = (MACQ_SUCCESS, basis3 ''101'') \<and>
   toffoli_on_basis3 ''011'' = (MACQ_SUCCESS, basis3 ''011'') \<and>
   toffoli_on_basis3 ''111'' = (MACQ_SUCCESS, basis3 ''110'') \<and>
   basis3 ''000'' = Some (qstate_of 3 [1, 0, 0, 0, 0, 0, 0, 0]) \<and>
   basis3 ''100'' = Some (qstate_of 3 [0, 1, 0, 0, 0, 0, 0, 0]) \<and>
   basis3 ''010'' = Some (qstate_of 3 [0, 0, 1, 0, 0, 0, 0, 0]) \<and>
   basis3 ''110'' = Some (qstate_of 3 [0, 0, 0, 1, 0, 0, 0, 0]) \<and>
   basis3 ''001'' = Some (qstate_of 3 [0, 0, 0, 0, 1, 0, 0, 0]) \<and>
   basis3 ''101'' = Some (qstate_of 3 [0, 0, 0, 0, 0, 1, 0, 0]) \<and>
   basis3 ''011'' = Some (qstate_of 3 [0, 0, 0, 0, 0, 0, 1, 0]) \<and>
   basis3 ''111'' = Some (qstate_of 3 [0, 0, 0, 0, 0, 0, 0, 1])"
  by (simp add: toffoli_on_basis3_def basis3_values apply_toffoli_0_1_2_of_3)

theorem toffoli_truth_table_witness:
  "is_valid_qubit_index (basis3 ''110'') 0 \<and> is_valid_qubit_index (basis3 ''110'') 1 \<and>
   is_valid_qubit_index (basis3 ''110'') 2 \<and>
   qstate_apply_toffoli (basis3 ''110'') 0 1 2
     = (MACQ_SUCCESS, Some (qstate_of 3 [0, 0, 0, 0, 0, 0, 0, 1]))"
proof -
  have v: "is_valid_qubit_index (basis3 ''110'') 0 \<and> is_valid_qubit_index (basis3 ''110'') 1 \<and>
      is_valid_qubit_index (basis3 ''110'') 2"
    unfolding basis3_values by (simp add: eval_simps)
  have t: "toffoli_on_basis3 ''110'' = (MACQ_SUCCESS, basis3 ''111'')"
    and b: "basis3 ''111'' = Some (qstate_of 3 [0, 0, 0, 0, 0, 0, 0, 1])"
    using toffoli_truth_table by blast+
  have "qstate_apply_toffoli (basis3 ''110'') 0 1 2
      = (MACQ_SUCCESS, Some (qstate_of 3 [0, 0, 0, 0, 0, 0, 0, 1]))"
    using t unfolding toffoli_on_basis3_def b .
  with v show ?thesis by blast
qed

section \<open>Duplicate qubit indices\<close>

text \<open>
  C2, as stated (fails): every two- and three-qubit kernel called with duplicate qubit
  indices returns an error and does not mutate. With valid duplicate indices
  \<^verbatim>\<open>qstate_apply_swap\<close> returns success (its documented no-op), and \<^verbatim>\<open>qstate_apply_cz\<close>
  and \<^verbatim>\<open>qstate_apply_toffoli\<close>, which have no check of distinctness, return success and
  change the amplitudes: CZ(0,0) negates the amplitude at index 1 and Toffoli(0,0,1)
  moves the amplitude at index 1 to index 3.
\<close>

theorem duplicate_indices_counterexample:
  "qstate_apply_swap (qstate_create 1) 0 0 = (MACQ_SUCCESS, qstate_create 1) \<and>
   qstate_apply_cz (Some (qstate_of 1 [0, 1])) 0 0 = (MACQ_SUCCESS, Some (qstate_of 1 [0, - 1])) \<and>
   qstate_apply_toffoli (Some (qstate_of 2 [0, 1, 0, 0])) 0 0 1
     = (MACQ_SUCCESS, Some (qstate_of 2 [0, 0, 0, 1]))"
  by (simp add: create_1 qstate_apply_swap_def qstate_apply_cz_def cz_body_def
      qstate_apply_toffoli_def toffoli_body_def swap_amplitudes_def eval_simps)

text \<open>
  C2, amended: with duplicate qubit indices that are valid, \<^verbatim>\<open>qstate_apply_cnot\<close>
  (control equal to target) returns the invalid-gate error and \<^verbatim>\<open>qstate_apply_swap\<close>
  (both qubits equal) returns success as a no-op, and neither mutates the state; with
  duplicate indices that are out of range, each of CNOT, CZ, SWAP and Toffoli (any two of
  its three indices coincident and out of range, whatever the third) returns the
  invalid-index error and does not mutate the state. (Nothing is said of CZ and Toffoli
  on valid duplicate indices.)
\<close>

theorem duplicate_indices_cnot_swap:
  "(is_valid_qubit_index qs q \<longrightarrow>
      qstate_apply_cnot qs q q = (MACQ_ERROR_INVALID_GATE, qs) \<and>
      qstate_apply_swap qs q q = (MACQ_SUCCESS, qs)) \<and>
   (\<not> is_valid_qubit_index qs q \<longrightarrow>
      qstate_apply_cnot qs q q = (MACQ_ERROR_INVALID_INDEX, qs) \<and>
      qstate_apply_cz qs q q = (MACQ_ERROR_INVALID_INDEX, qs) \<and>
      qstate_apply_swap qs q q = (MACQ_ERROR_INVALID_INDEX, qs) \<and>
      qstate_apply_toffoli qs q q t = (MACQ_ERROR_INVALID_INDEX, qs) \<and>
      qstate_apply_toffoli qs q c q = (MACQ_ERROR_INVALID_INDEX, qs) \<and>
      qstate_apply_toffoli qs c q q = (MACQ_ERROR_INVALID_INDEX, qs))"
  by (simp add: qstate_apply_cnot_def qstate_apply_swap_def qstate_apply_cz_def
      qstate_apply_toffoli_def)

theorem duplicate_indices_cnot_swap_witness:
  "is_valid_qubit_index (qstate_create 1) 0 \<and>
   qstate_apply_cnot (qstate_create 1) 0 0 = (MACQ_ERROR_INVALID_GATE, qstate_create 1) \<and>
   qstate_apply_swap (qstate_create 1) 0 0 = (MACQ_SUCCESS, qstate_create 1) \<and>
   \<not> is_valid_qubit_index (qstate_create 1) 5 \<and>
   qstate_apply_cnot (qstate_create 1) 5 5 = (MACQ_ERROR_INVALID_INDEX, qstate_create 1) \<and>
   qstate_apply_cz (qstate_create 1) 5 5 = (MACQ_ERROR_INVALID_INDEX, qstate_create 1) \<and>
   qstate_apply_swap (qstate_create 1) 5 5 = (MACQ_ERROR_INVALID_INDEX, qstate_create 1) \<and>
   qstate_apply_toffoli (qstate_create 1) 5 5 0 = (MACQ_ERROR_INVALID_INDEX, qstate_create 1) \<and>
   qstate_apply_toffoli (qstate_create 1) 5 0 5 = (MACQ_ERROR_INVALID_INDEX, qstate_create 1) \<and>
   qstate_apply_toffoli (qstate_create 1) 0 5 5 = (MACQ_ERROR_INVALID_INDEX, qstate_create 1)"
proof -
  have v: "is_valid_qubit_index (qstate_create 1) 0"
    and n: "\<not> is_valid_qubit_index (qstate_create 1) 5"
    by (simp_all add: create_1 eval_simps)
  show ?thesis
    using duplicate_indices_cnot_swap [of "qstate_create 1" 0]
      duplicate_indices_cnot_swap [of "qstate_create 1" 5 0 0] v n
    by blast
qed

section \<open>Normalisation\<close>

text \<open>
  C8: on a state whose norm (as \<^verbatim>\<open>qstate_norm\<close> computes it) is below \<open>1e-10\<close>,
  \<^verbatim>\<open>qstate_normalize\<close> fails with the invalid-gate error and returns the state as it was;
  on a state whose norm is at least \<open>1e-10\<close> it returns success, and the buffer is the old
  one with every amplitude divided by the norm (the cached norm is set to 1).
\<close>

theorem normalize_spec:
  assumes "wf_qstate s"
  shows "(qstate_norm (Some s) < 1 / 10 ^ 10 \<longrightarrow>
           qstate_normalize (Some s) = (MACQ_ERROR_INVALID_GATE, Some s)) \<and>
         (qstate_norm (Some s) \<ge> 1 / 10 ^ 10 \<longrightarrow>
           qstate_normalize (Some s)
             = (MACQ_SUCCESS,
                Some (s \<lparr> state_vector :=
                            map (\<lambda>a. a / complex_of_real (qstate_norm (Some s))) (state_vector s),
                          norm_cache := 1 \<rparr>)))"
proof -
  have len: "vector_size s = length (state_vector s)"
    using assms by (simp add: wf_qstate_def)
  have loop: "fold (\<lambda>i v. v[i := v ! i / complex_of_real c]) [0..<vector_size s] (state_vector s)
      = map (\<lambda>a. a / complex_of_real c) (state_vector s)" for c
    using fold_update_map [of "vector_size s" "state_vector s" "\<lambda>a. a / complex_of_real c"]
    by (simp add: len)
  show ?thesis
    by (simp add: qstate_normalize_def Let_def loop not_less [symmetric])
qed

theorem normalize_spec_witness:
  "wf_qstate (qstate_of 1 [0, 0]) \<and>
   qstate_norm (Some (qstate_of 1 [0, 0])) < 1 / 10 ^ 10 \<and>
   qstate_normalize (Some (qstate_of 1 [0, 0]))
     = (MACQ_ERROR_INVALID_GATE, Some (qstate_of 1 [0, 0])) \<and>
   wf_qstate (qstate_of 1 [2, 0]) \<and>
   qstate_norm (Some (qstate_of 1 [2, 0])) \<ge> 1 / 10 ^ 10 \<and>
   qstate_normalize (Some (qstate_of 1 [2, 0])) = (MACQ_SUCCESS, Some (qstate_of 1 [1, 0]))"
proof -
  have n0: "qstate_norm (Some (qstate_of 1 [0, 0])) = 0"
    by (simp add: qstate_norm_def norm_squared_loop_def sq_mag_def eval_simps)
  have n2: "qstate_norm (Some (qstate_of 1 [2, 0])) = 2"
    by (simp add: qstate_norm_def norm_squared_loop_def sq_mag_def eval_simps)
  have "qstate_normalize (Some (qstate_of 1 [0, 0]))
     = (MACQ_ERROR_INVALID_GATE, Some (qstate_of 1 [0, 0]))"
    using normalize_spec [OF wf_qstate_of_1, of 0 0] n0 by simp
  moreover have "qstate_normalize (Some (qstate_of 1 [2, 0]))
     = (MACQ_SUCCESS, Some (qstate_of 1 [1, 0]))"
    using normalize_spec [OF wf_qstate_of_1, of 2 0] n2 by (simp add: qstate_of_def)
  ultimately show ?thesis
    using n0 n2 wf_qstate_of_1 by simp
qed

section \<open>The cached norm\<close>

lemma single_qubit_kernel_norm_cache:
  "map_option norm_cache (snd (single_qubit_kernel body qs target)) = map_option norm_cache qs"
  by (cases qs) (simp_all add: single_qubit_kernel_def Let_def)

lemma set_amplitude_norm_cache:
  "map_option norm_cache (snd (qstate_set_amplitude qs i a)) = map_option norm_cache qs"
  by (cases qs) (simp_all add: qstate_set_amplitude_def)

lemma cnot_norm_cache:
  "map_option norm_cache (snd (qstate_apply_cnot qs c t)) = map_option norm_cache qs"
  by (cases qs) (simp_all add: qstate_apply_cnot_def Let_def)

lemma cz_norm_cache:
  "map_option norm_cache (snd (qstate_apply_cz qs c t)) = map_option norm_cache qs"
  by (cases qs) (simp_all add: qstate_apply_cz_def Let_def)

lemma swap_norm_cache:
  "map_option norm_cache (snd (qstate_apply_swap qs c t)) = map_option norm_cache qs"
  by (cases qs) (simp_all add: qstate_apply_swap_def Let_def)

lemma toffoli_norm_cache:
  "map_option norm_cache (snd (qstate_apply_toffoli qs c c2 t)) = map_option norm_cache qs"
  by (cases qs) (simp_all add: qstate_apply_toffoli_def Let_def)

lemma measure_norm_cache:
  "(case snd (qstate_measure qs q r rm) of
      State qs' \<Rightarrow> map_option norm_cache qs' = map_option norm_cache qs
    | Division_By_Zero \<Rightarrow> True)"
  by (cases qs) (simp_all add: qstate_measure_def Let_def split: prod.splits option.splits)

lemma norm_ignores_cache: "qstate_norm (Some (s\<lparr>norm_cache := c\<rparr>)) = qstate_norm (Some s)"
  by (simp add: qstate_norm_def)

lemma set_amplitude_stale_cache:
  "qstate_set_amplitude (qstate_create 1) 0 2 = (MACQ_SUCCESS, Some (qstate_of 1 [2, 0])) \<and>
   norm_cache (qstate_of 1 [2, 0]) = 1 \<and>
   qstate_norm (Some (qstate_of 1 [2, 0])) = 2"
  by (simp add: create_1 qstate_set_amplitude_def qstate_norm_def norm_squared_loop_def
      sq_mag_def eval_simps)

lemma norm_cache_writers:
  "map_option norm_cache (qstate_create n)
     = (if n < 1 \<or> n > MAX_QUBITS then None else Some 1)"
  "map_option norm_cache (qstate_clone (Some s))
     = (if num_qubits s < 1 \<or> num_qubits s > MAX_QUBITS then None else Some (norm_cache s))"
  "map_option norm_cache (snd (qstate_init_basis (Some s) b))
     = Some (if fst (qstate_init_basis (Some s) b) = MACQ_SUCCESS then 1 else norm_cache s)"
  "map_option norm_cache (snd (qstate_normalize (Some s)))
     = Some (if fst (qstate_normalize (Some s)) = MACQ_SUCCESS then 1 else norm_cache s)"
  by (simp_all add: qstate_create_def qstate_clone_def qstate_init_basis_def
      qstate_normalize_def Let_def split: option.splits)

text \<open>
  C10: \<^verbatim>\<open>qstate_set_amplitude\<close> and each of the thirteen gate kernels (and
  \<^verbatim>\<open>qstate_measure\<close>, when it leaves a state) return the state with the cached norm it
  had, on every input; the field is written by \<^verbatim>\<open>qstate_create\<close> (1), \<^verbatim>\<open>qstate_clone\<close>
  (the source's value), and by \<^verbatim>\<open>qstate_init_basis\<close> and \<^verbatim>\<open>qstate_normalize\<close> when they
  succeed (1). \<^verbatim>\<open>qstate_norm\<close> does not depend on the field. After
  \<^verbatim>\<open>qstate_set_amplitude(qs, 0, 2.0)\<close> on the one-qubit state \<open>|0\<rangle>\<close> the cached norm
  is 1 while \<^verbatim>\<open>qstate_norm\<close> computes 2.
\<close>

theorem norm_cache_frame:
  "map_option norm_cache (snd (qstate_set_amplitude qs i a)) = map_option norm_cache qs \<and>
   map_option norm_cache (snd (qstate_apply_x qs t)) = map_option norm_cache qs \<and>
   map_option norm_cache (snd (qstate_apply_y qs t)) = map_option norm_cache qs \<and>
   map_option norm_cache (snd (qstate_apply_z qs t)) = map_option norm_cache qs \<and>
   map_option norm_cache (snd (qstate_apply_h qs t)) = map_option norm_cache qs \<and>
   map_option norm_cache (snd (qstate_apply_s qs t)) = map_option norm_cache qs \<and>
   map_option norm_cache (snd (qstate_apply_t qs t)) = map_option norm_cache qs \<and>
   map_option norm_cache (snd (qstate_apply_rx qs t theta)) = map_option norm_cache qs \<and>
   map_option norm_cache (snd (qstate_apply_ry qs t theta)) = map_option norm_cache qs \<and>
   map_option norm_cache (snd (qstate_apply_rz qs t theta)) = map_option norm_cache qs \<and>
   map_option norm_cache (snd (qstate_apply_cnot qs c t)) = map_option norm_cache qs \<and>
   map_option norm_cache (snd (qstate_apply_cz qs c t)) = map_option norm_cache qs \<and>
   map_option norm_cache (snd (qstate_apply_swap qs c t)) = map_option norm_cache qs \<and>
   map_option norm_cache (snd (qstate_apply_toffoli qs c c2 t)) = map_option norm_cache qs \<and>
   (case snd (qstate_measure qs t r rm) of
      State qs' \<Rightarrow> map_option norm_cache qs' = map_option norm_cache qs
    | Division_By_Zero \<Rightarrow> True) \<and>
   map_option norm_cache (qstate_create n)
     = (if n < 1 \<or> n > MAX_QUBITS then None else Some 1) \<and>
   map_option norm_cache (qstate_clone (Some s))
     = (if num_qubits s < 1 \<or> num_qubits s > MAX_QUBITS then None else Some (norm_cache s)) \<and>
   map_option norm_cache (snd (qstate_init_basis (Some s) b))
     = Some (if fst (qstate_init_basis (Some s) b) = MACQ_SUCCESS then 1 else norm_cache s) \<and>
   map_option norm_cache (snd (qstate_normalize (Some s)))
     = Some (if fst (qstate_normalize (Some s)) = MACQ_SUCCESS then 1 else norm_cache s) \<and>
   qstate_norm (Some (s\<lparr>norm_cache := x\<rparr>)) = qstate_norm (Some s) \<and>
   qstate_set_amplitude (qstate_create 1) 0 2 = (MACQ_SUCCESS, Some (qstate_of 1 [2, 0])) \<and>
   norm_cache (qstate_of 1 [2, 0]) = 1 \<and>
   qstate_norm (Some (qstate_of 1 [2, 0])) = 2"
  unfolding qstate_apply_x_def qstate_apply_y_def qstate_apply_z_def qstate_apply_h_def
    qstate_apply_s_def qstate_apply_t_def qstate_apply_rx_def qstate_apply_ry_def
    qstate_apply_rz_def
  by (intro conjI single_qubit_kernel_norm_cache set_amplitude_norm_cache cnot_norm_cache
      cz_norm_cache swap_norm_cache toffoli_norm_cache measure_norm_cache norm_cache_writers
      norm_ignores_cache set_amplitude_stale_cache [THEN conjunct1]
      set_amplitude_stale_cache [THEN conjunct2, THEN conjunct1]
      set_amplitude_stale_cache [THEN conjunct2, THEN conjunct2])

theorem norm_cache_frame_witness:
  "is_valid_qubit_index (qstate_create 2) 0 \<and> is_valid_qubit_index (qstate_create 2) 1 \<and>
   map_option norm_cache (qstate_create 2) = Some 1 \<and>
   map_option norm_cache (snd (qstate_apply_cnot (qstate_create 2) 0 1)) = Some 1 \<and>
   map_option norm_cache (snd (qstate_apply_h (qstate_create 2) 1)) = Some 1 \<and>
   map_option norm_cache (snd (qstate_set_amplitude (qstate_create 2) 3 5)) = Some 1"
proof -
  have v: "is_valid_qubit_index (qstate_create 2) 0 \<and> is_valid_qubit_index (qstate_create 2) 1"
    and c: "map_option norm_cache (qstate_create 2) = Some 1"
    by (simp_all add: create_2 eval_simps)
  show ?thesis
    using norm_cache_frame [where qs = "qstate_create 2" and c = 0 and t = 1 and i = 3 and a = 5]
      v c
    by simp
qed

section \<open>Rounding to doubles\<close>



lemma round_ties_even_int: "round_ties_even (real_of_int n) = n"
  by (simp add: round_ties_even_def)






lemma round_ties_even_half:
  "x = real_of_int n + 1 / 2 \<Longrightarrow> round_ties_even x = (if even n then n else n + 1)"
  by (simp add: round_ties_even_def)



















section \<open>Norm preservation\<close>


















































section \<open>Measurement\<close>
























text \<open>
  C9: there are a state and a random draw for which the collapse of \<^verbatim>\<open>qstate_measure\<close>
  divides by zero. On the one-qubit state \<open>|0\<rangle>\<close> the probabilities are \<open>prob_0 = 1\<close>
  and \<open>prob_1 = 0\<close>; when \<^verbatim>\<open>rand()\<close> returns \<^verbatim>\<open>RAND_MAX\<close> (here \<open>2^31 - 1\<close>) the draw is
  1.0, which is not below \<open>prob_0 / (prob_0 + prob_1) = 1\<close>, so the outcome is 1, the
  norm factor is \<open>\<surd>0 = 0\<close> and the amplitude at index 1 is divided by it.
\<close>

theorem measure_divides_by_zero:
  "is_valid_qubit_index (qstate_create 1) 0 \<and>
   measure_probs (push_bit (nat 0) 1) 2 [1, 0] = (1, 0) \<and>
   measure_result 1 0 (real_of_int 2147483647 / real_of_int 2147483647) = 1 \<and>
   sqrt 0 = (0::real) \<and>
   cplx_div_double 0 (sqrt 0) = None \<and>
   qstate_measure (qstate_create 1) 0 2147483647 2147483647 = (1, Division_By_Zero)"
  by (simp add: create_1 qstate_measure_def measure_probs_def measure_result_def
      collapse_body_def cplx_div_double_def sq_mag_def eval_simps)

end
